theory Spec2Isabelle
  imports Main "HOL-Library.Word"
begin

unbundle bit_operations_syntax

section \<open>Bytes, machine integers and bounds-checked reads\<close>

text \<open>
  The listener (\<^verbatim>\<open>listener.c\<close>) decodes a received byte buffer. A byte is an
  \<open>8 word\<close>; C's \<^verbatim>\<open>int\<close> and \<^verbatim>\<open>unsigned int\<close> are mathematical integers with
  every conversion between them written out: \<open>u32\<close> is the conversion to
  \<^verbatim>\<open>unsigned int\<close> (reduction modulo \<open>2^32\<close>), \<open>s32\<close> the conversion to \<^verbatim>\<open>int\<close>
  (two's complement wrap-around, as gcc and clang define it), \<open>u64\<close> the conversion
  to \<^verbatim>\<open>size_t\<close>.
\<close>

type_synonym u8 = "8 word"

definition u32 :: "int \<Rightarrow> int" where
  "u32 x = x mod 2 ^ 32"

definition s32 :: "int \<Rightarrow> int" where
  "s32 x = (x + 2 ^ 31) mod 2 ^ 32 - 2 ^ 31"

definition u64 :: "int \<Rightarrow> int" where
  "u64 x = x mod 2 ^ 64"

text \<open>
  The decoder is handed an array \<open>buf\<close> and the number \<open>len\<close> of received bytes at its
  start. A pointer into the array is its byte offset from the array's start (flat
  addresses, 64-bit pointers: adding an \<^verbatim>\<open>unsigned int\<close> never wraps the offset).
  A read inside the array returns the byte stored there, also at an offset of \<open>len\<close>
  or more, where the array holds whatever an earlier use left. Dereferencing an
  offset outside the array is undefined: the model stops there and reports the
  offset. \<^verbatim>\<open>greet_cb\<close> passes its array of 8192 bytes; an array of exactly \<open>len\<close> bytes
  makes every read past the received bytes a fault.
\<close>

datatype fault = Out_of_bounds int

definition fbind :: "fault + 'a \<Rightarrow> ('a \<Rightarrow> fault + 'b) \<Rightarrow> fault + 'b" where
  "fbind m f = (case m of Inl e \<Rightarrow> Inl e | Inr x \<Rightarrow> f x)"

definition rd :: "u8 list \<Rightarrow> int \<Rightarrow> fault + u8" where
  "rd buf i = (if 0 \<le> i \<and> i < int (length buf) then Inr (buf ! nat i)
               else Inl (Out_of_bounds i))"

text \<open>\<^verbatim>\<open>memcpy\<close>/\<^verbatim>\<open>memcmp\<close> source operand: \<open>n\<close> bytes starting at offset \<open>p\<close>.\<close>

definition rd_range :: "u8 list \<Rightarrow> int \<Rightarrow> int \<Rightarrow> fault + u8 list" where
  "rd_range buf p n =
     (if n \<le> 0 then Inr []
      else if 0 \<le> p \<and> p + n \<le> int (length buf) then Inr (take (nat n) (drop (nat p) buf))
      else Inl (Out_of_bounds (if 0 \<le> p \<and> p < int (length buf) then int (length buf) else p)))"

definition int_3byte_le :: "u8 list \<Rightarrow> int \<Rightarrow> fault + int" where
  "int_3byte_le buf p =
     fbind (rd buf p) (\<lambda>b0. fbind (rd buf (p + 1)) (\<lambda>b1. fbind (rd buf (p + 2)) (\<lambda>b2.
       Inr (uint b0 OR push_bit 8 (uint b1) OR push_bit 16 (uint b2)))))"

definition int_2byte_le :: "u8 list \<Rightarrow> int \<Rightarrow> fault + int" where
  "int_2byte_le buf p =
     fbind (rd buf p) (\<lambda>b0. fbind (rd buf (p + 1)) (\<lambda>b1.
       Inr (uint b0 OR push_bit 8 (uint b1))))"

text \<open>
  \<^verbatim>\<open>tlen = *p\<close> with \<^verbatim>\<open>const char *p\<close> and \<^verbatim>\<open>unsigned int tlen\<close>: whether plain
  \<^verbatim>\<open>char\<close> is signed is the platform's choice, so it is a parameter.
\<close>

definition char_to_uint :: "bool \<Rightarrow> u8 \<Rightarrow> int" where
  "char_to_uint char_signed b = (if char_signed then u32 (sint b) else uint b)"

section \<open>Sessions and their effects\<close>

text \<open>
  \<^verbatim>\<open>struct ssl_session\<close>. The watcher \<^verbatim>\<open>io\<close> is kept as the callback installed by
  \<^verbatim>\<open>ev_io_init\<close>, its descriptor, the readiness it waits for and whether it is started.
  \<^verbatim>\<open>hostname\<close> is \<open>None\<close> for the null pointer left by \<^verbatim>\<open>xmalloc0\<close>, otherwise the
  contents of the allocated buffer. The fields \<^verbatim>\<open>backends\<close> and \<^verbatim>\<open>loop\<close> are only
  passed on and are left out.
\<close>

datatype ssl_state = ssl_state_init | ssl_state_alert | ssl_state_alert_sent

datatype handler = Greet_cb | Alert_cb | Accept_cb

datatype ev_kind = EV_READ | EV_WRITE

record ev_io =
  io_cb :: handler
  io_fd :: int
  io_events :: ev_kind
  io_active :: bool

record ssl_session =
  fd :: int
  io :: ev_io
  hostname :: "u8 list option"
  state :: ssl_state

text \<open>
  Everything the code does to the outside world is appended to a trace, oldest first.
  A byte written from memory that was never assigned is \<open>None\<close>.
\<close>

datatype effect =
    Ev_io_stop int
  | Ev_io_start handler int ev_kind
  | Close int
  | Free_hostname "u8 list option"
  | Free_session
  | Write int "u8 option list"
  | Xmalloc int
  | Xmalloc0_session
  | Xmalloc0_watcher
  | Printf_got_hostname "u8 list option"
  | Fprintf_stderr string
  | Socket int
  | Fcntl_setfd_cloexec int
  | Setsockopt_reuseaddr int
  | Fcntl_getfl int
  | Fcntl_setfl_nonblock int
  | Bind int
  | Listen int
  | Accept int int

text \<open>
  Modelled from the spec: \<^verbatim>\<open>xmalloc\<close> and \<^verbatim>\<open>xmalloc0\<close> are declared in \<^verbatim>\<open>util.h\<close>, which
  is not among the sources. An allocation returns a fresh buffer (zeroed by
  \<^verbatim>\<open>xmalloc0\<close>); a failed allocation ends the process and is no branch of the model.
\<close>

type_synonym world = "ssl_session \<times> effect list"

definition tls_magic :: "u8 list" where
  "tls_magic = [0x16, 0x3, 0x1]"

definition tls_greeting :: int where
  "tls_greeting = 0x1"

definition sni_type :: int where
  "sni_type = 0x0"

definition sni_host :: int where
  "sni_host = 0x0"

definition tls_alert :: u8 where
  "tls_alert = 0x15"

definition tls_alert_level :: u8 where
  "tls_alert_level = 0x2"

definition tls_alert_description :: u8 where
  "tls_alert_description = 0x40"

text \<open>The packed structures: 3 + 2 + 1 + 3 + 2 + 32 bytes and 2 + 1 + 2 + 1 bytes.\<close>

definition sizeof_ssl_header :: int where
  "sizeof_ssl_header = 43"

definition sizeof_sni_ext :: int where
  "sizeof_sni_ext = 6"

subsection \<open>Termination and the alert\<close>

definition terminate_session :: "ssl_session \<Rightarrow> effect list" where
  "terminate_session ssl =
     [Ev_io_stop (io_fd (io ssl)), Close (fd ssl), Free_hostname (hostname ssl), Free_session]"

text \<open>
  \<^verbatim>\<open>struct ssl_alert\<close> is an automatic variable without initialiser: each of its seven
  bytes is indeterminate (\<open>None\<close>) until assigned.
\<close>

record ssl_alert =
  a_type :: "u8 option"
  a_version :: "u8 option list"
  a_len :: "u8 option list"
  a_level :: "u8 option"
  a_description :: "u8 option"

definition alert_uninit :: ssl_alert where
  "alert_uninit = \<lparr>a_type = None, a_version = [None, None], a_len = [None, None],
                    a_level = None, a_description = None\<rparr>"

definition alert_bytes :: "ssl_alert \<Rightarrow> u8 option list" where
  "alert_bytes a = [a_type a] @ a_version a @ a_len a @ [a_level a, a_description a]"

text \<open>The assignments of \<^verbatim>\<open>alert_cb\<close>, lines 131 to 136, in order.\<close>

definition alert_record :: ssl_alert where
  "alert_record =
     (let a = alert_uninit;
          a = a\<lparr>a_type := Some tls_alert\<rparr>;
          a = a\<lparr>a_version := (a_version a)[0 := Some 0x03]\<rparr>;
          a = a\<lparr>a_version := (a_version a)[0 := Some 0x01]\<rparr>;
          a = a\<lparr>a_len := (a_len a)[1 := Some 2]\<rparr>;
          a = a\<lparr>a_level := Some tls_alert_level\<rparr>;
          a = a\<lparr>a_description := Some tls_alert_description\<rparr>
      in a)"

text \<open>
  \<^verbatim>\<open>alert_cb\<close>: the session is \<open>None\<close> once \<^verbatim>\<open>terminate_session\<close> has freed it.
\<close>

definition alert_cb :: "world \<Rightarrow> ssl_session option \<times> effect list" where
  "alert_cb w =
     (case w of (ssl, tr) \<Rightarrow>
        if state ssl = ssl_state_alert
        then (Some (ssl\<lparr>state := ssl_state_alert_sent\<rparr>),
              tr @ [Write (fd ssl) (alert_bytes alert_record)])
        else (None, tr @ terminate_session ssl))"

definition send_alert :: "world \<Rightarrow> world" where
  "send_alert w =
     (case w of (ssl, tr) \<Rightarrow>
        (ssl\<lparr>state := ssl_state_alert,
              io := \<lparr>io_cb = Alert_cb, io_fd = fd ssl, io_events = EV_WRITE, io_active = True\<rparr>\<rparr>,
         tr @ [Ev_io_start Alert_cb (fd ssl) EV_WRITE]))"

section \<open>The ClientHello decoder\<close>

text \<open>
  \<^verbatim>\<open>parse_extension\<close>. The overlay pointer is \<^verbatim>\<open>(const struct sni_ext *)pos + 4\<close>: the
  cast binds first, so the addition counts in structures and \<open>sni\<close> is
  \<open>pos + 4 * sizeof_sni_ext\<close>. The fields \<^verbatim>\<open>slen\<close>, \<^verbatim>\<open>type\<close>, \<^verbatim>\<open>hlen\<close>, \<^verbatim>\<open>host\<close> lie at
  \<open>sni\<close>, \<open>sni + 2\<close>, \<open>sni + 3\<close>, \<open>sni + 5\<close>. The conditions joined by \<^verbatim>\<open>||\<close> are
  evaluated left to right and stop at the first that holds.
\<close>

definition parse_extension :: "u8 list \<Rightarrow> world \<Rightarrow> int \<Rightarrow> int \<Rightarrow> fault + (int \<times> world)" where
  "parse_extension buf w pos remain =
     (if remain < 0 then Inr (- 1, w)
      else if remain < 4 then Inr (0, w)
      else
        fbind (int_2byte_le buf pos) (\<lambda>type.
        fbind (int_2byte_le buf (pos + 2)) (\<lambda>tlen.
          if tlen > u32 remain then Inr (- 1, w)
          else if type = sni_type then
            (if tlen < sizeof_sni_ext then Inr (- 1, w)
             else
               let sni = pos + 4 * sizeof_sni_ext in
               fbind (int_2byte_le buf sni) (\<lambda>slen.
                 if slen \<noteq> u32 (tlen - 2) then Inr (- 1, w)
                 else
               fbind (rd buf (sni + 2)) (\<lambda>ty.
                 if uint ty \<noteq> sni_host then Inr (- 1, w)
                 else
               fbind (int_2byte_le buf (sni + 3)) (\<lambda>hl.
                 if hl \<noteq> u32 (tlen - 3) then Inr (- 1, w)
                 else
               fbind (int_2byte_le buf (sni + 3)) (\<lambda>hlen.
               fbind (rd_range buf (sni + 5) hlen) (\<lambda>host.
                 Inr (s32 (u32 (tlen + 4)),
                      (fst w)\<lparr>hostname := Some (host @ [0])\<rparr>,
                      snd w @ [Xmalloc (u32 (hlen + 1))])))))))
          else Inr (s32 (u32 (tlen + 4)), w))))"

lemma parse_extension_pos_remain:
  "parse_extension buf w pos remain = Inr (ret, w') \<Longrightarrow> 0 < ret \<Longrightarrow> 4 \<le> remain"
  by (cases "remain < 0"; cases "remain < 4") (simp_all add: parse_extension_def)

text \<open>
  The loop of \<^verbatim>\<open>parse_ssl_greeting\<close>, lines 256 to 259: it returns the first value of
  \<^verbatim>\<open>parse_extension\<close> that is not positive.
\<close>

function ext_loop :: "u8 list \<Rightarrow> world \<Rightarrow> int \<Rightarrow> int \<Rightarrow> fault + (int \<times> world)" where
  "ext_loop buf w p remain =
     (case parse_extension buf w p remain of
        Inl e \<Rightarrow> Inl e
      | Inr (ret, w') \<Rightarrow>
          if ret > 0 then ext_loop buf w' (p + ret) (remain - ret) else Inr (ret, w'))"
  by pat_completeness auto
termination
proof (relation "measure (\<lambda>(buf, w, p, remain). nat remain)")
  show "wf (measure (\<lambda>(buf, w, p, remain). nat remain))"
    by simp
next
  fix buf :: "u8 list" and w :: world and p remain :: int and x2 :: "int \<times> world"
    and ret :: int and w' :: world
  assume "parse_extension buf w p remain = Inr x2" and "(ret, w') = x2" and "0 < ret"
  then have "4 \<le> remain"
    using parse_extension_pos_remain [of buf w p remain ret w'] by simp
  with \<open>0 < ret\<close>
  show "((buf, w', p + ret, remain - ret), (buf, w, p, remain))
          \<in> measure (\<lambda>(buf, w, p, remain). nat remain)"
    by simp
qed

declare ext_loop.simps [simp del]

text \<open>The test of lines 213 to 216 (\<open>True\<close>: not an SSL packet), again left to right.\<close>

definition not_ssl_packet :: "u8 list \<Rightarrow> int \<Rightarrow> fault + bool" where
  "not_ssl_packet buf len =
     fbind (rd_range buf 0 3) (\<lambda>magic.
       if magic \<noteq> tls_magic then Inr True
       else
     fbind (rd buf 5) (\<lambda>type.
       if uint type \<noteq> tls_greeting then Inr True
       else
     fbind (int_2byte_le buf 3) (\<lambda>l.
       if l \<noteq> u32 (len - 5) then Inr True
       else
     fbind (int_3byte_le buf 6) (\<lambda>g.
       Inr (g \<noteq> u32 (len - 5 - 4))))))"

text \<open>
  Lines 220 to 245: the cursor after the fixed header, the session id, the cipher
  suites and the compression methods. \<open>None\<close> is the jump to \<^verbatim>\<open>err\<close>; otherwise the
  result is the cursor \<open>p\<close> and \<open>remain\<close> in front of the extensions length.
  \<^verbatim>\<open>tlen >= remain + 4\<close> compares as \<^verbatim>\<open>unsigned int\<close>; \<^verbatim>\<open>remain -= tlen + 1\<close> subtracts
  as \<^verbatim>\<open>unsigned int\<close> and converts back.
\<close>

definition greeting_fields :: "bool \<Rightarrow> u8 list \<Rightarrow> int \<Rightarrow> fault + (int \<times> int) option" where
  "greeting_fields char_signed buf len =
     (let p = sizeof_ssl_header;
          remain = s32 (len - sizeof_ssl_header)
      in
      fbind (rd buf p) (\<lambda>b.
        let tlen = char_to_uint char_signed b in
        if tlen \<ge> u32 (remain + 4) then Inr None
        else
          let p = p + tlen + 1;
              remain = s32 (u32 (u32 remain - u32 (tlen + 1)))
          in
      fbind (int_2byte_le buf p) (\<lambda>tlen.
        if tlen \<ge> u32 (remain + 4) then Inr None
        else
          let p = p + tlen + 2;
              remain = s32 (u32 (u32 remain - u32 (tlen + 2)))
          in
      fbind (rd buf p) (\<lambda>b.
        let tlen = char_to_uint char_signed b in
        if tlen \<ge> u32 (remain + 4) then Inr None
        else
          let p = p + tlen + 1;
              remain = s32 (u32 (u32 remain - u32 (tlen + 1)))
          in Inr (Some (p, remain))))))"

text \<open>\<^verbatim>\<open>ev_io_stop\<close> on the session's watcher.\<close>

definition ev_io_stop :: "world \<Rightarrow> world" where
  "ev_io_stop w =
     (case w of (ssl, tr) \<Rightarrow>
        (ssl\<lparr>io := (io ssl)\<lparr>io_active := False\<rparr>\<rparr>, tr @ [Ev_io_stop (io_fd (io ssl))]))"

text \<open>
  Lines 261 to 267: what follows the loop, given its last \<open>ret\<close>. The function returns
  nothing; that the decode succeeded shows in the \<^verbatim>\<open>printf\<close> of line 262, which only
  the branch \<^verbatim>\<open>ret == 0\<close> reaches.
\<close>

definition greeting_done :: "int \<times> world \<Rightarrow> world" where
  "greeting_done rw =
     (case rw of (ret, ssl, tr) \<Rightarrow>
        if ret = 0 then send_alert (ssl, tr @ [Printf_got_hostname (hostname ssl)])
        else send_alert (ssl, tr))"

text \<open>
  \<^verbatim>\<open>parse_ssl_greeting\<close>. The first test compares \<open>len\<close> with a \<^verbatim>\<open>size_t\<close>.
\<close>

definition parse_ssl_greeting :: "bool \<Rightarrow> world \<Rightarrow> u8 list \<Rightarrow> int \<Rightarrow> fault + world" where
  "parse_ssl_greeting char_signed w buf len =
     (let w = ev_io_stop w
      in
      if u64 len \<le> sizeof_ssl_header then Inr (send_alert w)
      else
        fbind (not_ssl_packet buf len) (\<lambda>bad.
          if bad then Inr (send_alert w)
          else
        fbind (greeting_fields char_signed buf len) (\<lambda>fields.
          case fields of
            None \<Rightarrow> Inr (send_alert w)
          | Some (p, remain) \<Rightarrow>
        fbind (int_2byte_le buf p) (\<lambda>tlen.
          if tlen > u32 remain then Inr (send_alert w)
          else
        fbind (ext_loop buf w (p + 2) (remain - 2)) (\<lambda>rw.
          Inr (greeting_done rw))))))"

text \<open>
  \<^verbatim>\<open>greet_cb\<close>: \<open>r\<close> is what \<^verbatim>\<open>read\<close> returned and \<open>data\<close> the contents of the array
  \<^verbatim>\<open>buf\<close> after the call: the \<open>r\<close> received bytes, then the bytes the stack held
  before. The decoder gets the whole array and \<open>r\<close> as its \<open>len\<close>.
\<close>

definition greet_cb :: "bool \<Rightarrow> int \<Rightarrow> u8 list \<Rightarrow> world \<Rightarrow> fault + (ssl_session option \<times> effect list)" where
  "greet_cb char_signed r data w =
     (if r \<le> 0 then Inr (None, snd w @ terminate_session (fst w))
      else
        fbind (parse_ssl_greeting char_signed w data r) (\<lambda>(ssl, tr).
          Inr (Some ssl, tr)))"

section \<open>The reactor's view of one session\<close>

text \<open>
  \<open>Ready k r data\<close>: the reactor finds the session's descriptor ready for \<open>k\<close>; a
  \<^verbatim>\<open>read\<close> issued now returns \<open>r\<close> and leaves the array holding \<open>data\<close>. The reactor calls
  the callback stored in the watcher when the watcher is started and waits for \<open>k\<close>;
  otherwise nothing happens. A freed session has no watcher left.
\<close>

datatype event = Ready ev_kind int "u8 list"

fun deliver :: "bool \<Rightarrow> event \<Rightarrow> ssl_session option \<times> effect list
    \<Rightarrow> fault + (ssl_session option \<times> effect list)" where
  "deliver char_signed ev (None, tr) = Inr (None, tr)"
| "deliver char_signed (Ready k r data) (Some ssl, tr) =
     (if io_active (io ssl) \<and> io_events (io ssl) = k
      then (case io_cb (io ssl) of
              Greet_cb \<Rightarrow> greet_cb char_signed r data (ssl, tr)
            | Alert_cb \<Rightarrow> Inr (alert_cb (ssl, tr))
            | Accept_cb \<Rightarrow> Inr (Some ssl, tr))
      else Inr (Some ssl, tr))"

fun run :: "bool \<Rightarrow> event list \<Rightarrow> ssl_session option \<times> effect list
    \<Rightarrow> fault + (ssl_session option \<times> effect list)" where
  "run char_signed [] c = Inr c"
| "run char_signed (ev # evs) c = fbind (deliver char_signed ev c) (run char_signed evs)"

text \<open>Counting effects of a trace.\<close>

fun is_write :: "effect \<Rightarrow> bool" where
  "is_write (Write f bs) = True"
| "is_write e = False"

fun is_close :: "effect \<Rightarrow> bool" where
  "is_close (Close f) = True"
| "is_close e = False"

definition n_writes :: "effect list \<Rightarrow> nat" where
  "n_writes tr = length (filter is_write tr)"

definition n_closes :: "effect list \<Rightarrow> nat" where
  "n_closes tr = length (filter is_close tr)"

definition before_close :: "effect list \<Rightarrow> effect list" where
  "before_close tr = takeWhile (\<lambda>e. \<not> is_close e) tr"

text \<open>The value \<^verbatim>\<open>read\<close> returned at the first read readiness of a run, if any.\<close>

fun first_read :: "event list \<Rightarrow> int option" where
  "first_read [] = None"
| "first_read (Ready k r data # evs) = (if k = EV_READ then Some r else first_read evs)"

text \<open>The first read of a run returned 0 or less.\<close>

definition read_failed :: "event list \<Rightarrow> bool" where
  "read_failed evs = (case first_read evs of Some r \<Rightarrow> r \<le> 0 | None \<Rightarrow> False)"

text \<open>The one write \<^verbatim>\<open>alert_cb\<close> issues on descriptor \<open>f\<close>.\<close>

definition alert_write :: "int \<Rightarrow> effect" where
  "alert_write f = Write f (alert_bytes alert_record)"

text \<open>
  Two worlds with the same descriptor and the same numbers of writes and closes in
  their traces.
\<close>

definition quiet :: "world \<Rightarrow> world \<Rightarrow> bool" where
  "quiet w w' \<longleftrightarrow>
     fd (fst w') = fd (fst w) \<and> n_writes (snd w') = n_writes (snd w) \<and>
     n_closes (snd w') = n_closes (snd w)"

section \<open>The listener\<close>

text \<open>
  The results of the system calls are inputs. \<^verbatim>\<open>accept_from_socket\<close>: \<open>sock\<close> is the
  listening descriptor, \<open>accept_ret\<close> the new descriptor or \<open>- 1\<close>.
\<close>

datatype errno = EAGAIN | EINTR | EWOULDBLOCK | Other_errno int

record accept_env =
  accept_ret :: int
  accept_errno :: errno
  a_setfl_ret :: int
  a_setfd_ret :: int

definition accept_from_socket :: "accept_env \<Rightarrow> int \<Rightarrow> effect list \<Rightarrow> int \<times> effect list" where
  "accept_from_socket env sock tr =
     (let nfd = accept_ret env;
          tr = tr @ [Accept sock nfd]
      in
      if nfd = - 1 then
        (if accept_errno env = EAGAIN \<or> accept_errno env = EINTR \<or> accept_errno env = EWOULDBLOCK
         then (0, tr)
         else (- 1, tr))
      else
        let tr = tr @ [Fcntl_getfl sock, Fcntl_setfl_nonblock sock] in
        if a_setfl_ret env = - 1 then (- 1, tr @ [Close sock, Close nfd])
        else
          let tr = tr @ [Fcntl_setfd_cloexec nfd] in
          if a_setfd_ret env = - 1 then (- 1, tr @ [Fprintf_stderr ''fcntl failed'', Close nfd])
          else (nfd, tr))"

definition new_session :: "int \<Rightarrow> ssl_session" where
  "new_session nfd =
     \<lparr>fd = nfd,
      io = \<lparr>io_cb = Greet_cb, io_fd = nfd, io_events = EV_READ, io_active = True\<rparr>,
      hostname = None,
      state = ssl_state_init\<rparr>"

text \<open>\<^verbatim>\<open>accept_cb\<close> on the watcher of the listening descriptor \<open>wfd\<close>.\<close>

definition accept_cb :: "accept_env \<Rightarrow> int \<Rightarrow> effect list \<Rightarrow> ssl_session option \<times> effect list" where
  "accept_cb env wfd tr =
     (case accept_from_socket env wfd tr of (nfd, tr) \<Rightarrow>
        if nfd > 0
        then (Some (new_session nfd), tr @ [Xmalloc0_session, Ev_io_start Greet_cb nfd EV_READ])
        else (None, tr @ [Fprintf_stderr ''accept failed'']))"

record listen_env =
  socket_ret :: int
  l_setfd_ret :: int
  l_setfl_ret :: int
  bind_ret :: int
  listen_ret :: int

definition listen_on :: "listen_env \<Rightarrow> effect list \<Rightarrow> int \<times> effect list" where
  "listen_on env tr =
     (let sock = socket_ret env;
          tr = tr @ [Socket sock]
      in
      if sock = - 1 then (- 1, tr)
      else
        let tr = tr @ [Fcntl_setfd_cloexec sock] in
        if l_setfd_ret env = - 1 then (- 1, tr @ [Close sock])
        else
          let tr = tr @ [Setsockopt_reuseaddr sock, Fcntl_getfl sock, Fcntl_setfl_nonblock sock] in
          if l_setfl_ret env = - 1 then (- 1, tr @ [Close sock])
          else
            let tr = tr @ [Bind sock] in
            if bind_ret env = - 1 then (- 1, tr @ [Close sock])
            else
              let tr = tr @ [Listen sock] in
              if listen_ret env = - 1 then (- 1, tr @ [Close sock])
              else (sock, tr))"

text \<open>
  \<^verbatim>\<open>start_listen\<close>: \<open>gai_ret\<close> is what \<^verbatim>\<open>getaddrinfo\<close> returned, the list holds one
  entry per resolved address. \<open>listen_loop\<close> is the \<^verbatim>\<open>while\<close> of lines 405 to 418.
\<close>

fun listen_loop :: "listen_env list \<Rightarrow> effect list \<Rightarrow> bool \<times> effect list" where
  "listen_loop [] tr = (True, tr)"
| "listen_loop (cur_ai # ai_next) tr =
     (case listen_on cur_ai tr of (sock, tr) \<Rightarrow>
        if sock = - 1 then (False, tr @ [Fprintf_stderr ''socket listen''])
        else listen_loop ai_next (tr @ [Xmalloc0_watcher, Ev_io_start Accept_cb sock EV_READ]))"

definition start_listen :: "int \<Rightarrow> listen_env list \<Rightarrow> effect list \<Rightarrow> bool \<times> effect list" where
  "start_listen gai_ret res tr =
     (if gai_ret \<noteq> 0 then (False, tr @ [Fprintf_stderr ''getaddrinfo''])
      else listen_loop res tr)"

text \<open>The descriptors a trace has opened and not closed, in the order of opening.\<close>

fun open_fds :: "effect list \<Rightarrow> int list \<Rightarrow> int list" where
  "open_fds [] fds = fds"
| "open_fds (Socket s # tr) fds = open_fds tr (if s = - 1 then fds else fds @ [s])"
| "open_fds (Accept s n # tr) fds = open_fds tr (if n = - 1 then fds else fds @ [n])"
| "open_fds (Close f # tr) fds = open_fds tr (removeAll f fds)"
| "open_fds (e # tr) fds = open_fds tr fds"

section \<open>Test vectors\<close>

text \<open>
  The fixed header of a hello: magic \<open>16 03 01\<close>, record length \<open>l\<close> (low byte first),
  handshake type 1, handshake length \<open>g\<close> (low byte first), version, 32 random bytes.
\<close>

definition test_header :: "u8 \<Rightarrow> u8 \<Rightarrow> u8 list" where
  "test_header l g =
     [0x16, 0x03, 0x01, l, 0x00, 0x01, g, 0x00, 0x00, 0x03, 0x03,
      0, 0, 0, 0, 0, 0, 0, 0, 0, 0, 0, 0, 0, 0, 0, 0,
      0, 0, 0, 0, 0, 0, 0, 0, 0, 0, 0, 0, 0, 0, 0, 0]"

text \<open>
  Empty session id, one cipher suite (length 2), one compression method (length 1):
  offsets 43 to 49; the extensions length is then at offsets 50 and 51.
\<close>

definition test_fields :: "u8 list" where
  "test_fields = [0, 2, 0, 0x2f, 0, 1, 0]"

text \<open>44 bytes: the session-id length byte at offset 43 claims 3 bytes, none remain.\<close>

definition hello_sid_overrun :: "u8 list" where
  "hello_sid_overrun = test_header 39 35 @ [3]"

text \<open>52 bytes: the extensions length claims 2 bytes, none remain after the field.\<close>

definition hello_ext_len_overrun :: "u8 list" where
  "hello_ext_len_overrun = test_header 47 43 @ test_fields @ [2, 0]"

text \<open>
  72 bytes. One extension at offset 52: type 0, payload length 14; payload at offset
  56: list length 12, name type 0, host-name length 11, then \<open>example.com\<close>.
\<close>

definition example_com :: "u8 list" where
  "example_com = [0x65, 0x78, 0x61, 0x6d, 0x70, 0x6c, 0x65, 0x2e, 0x63, 0x6f, 0x6d]"

definition hello_example_com :: "u8 list" where
  "hello_example_com =
     test_header 67 63 @ test_fields @ [20, 0] @ [0, 0, 14, 0] @ [12, 0, 0, 11, 0] @ example_com"

text \<open>
  82 bytes: the same hello with ten more bytes in the extensions block (declared
  length 30), so that offsets 76 to 81 lie inside the buffer.
\<close>

definition hello_example_com_padded :: "u8 list" where
  "hello_example_com_padded =
     test_header 77 73 @ test_fields @ [30, 0] @ [0, 0, 14, 0] @ [12, 0, 0, 11, 0] @ example_com
       @ [8, 0] @ [0, 0, 0, 0, 0, 0, 0, 0]"

text \<open>
  94 bytes, extensions block of 42 bytes at offset 52: two extensions of type 0 and
  payload length 6 (offsets 52 and 62), then one of type 1 and payload length 18
  (offset 72). Offsets 76 and 86, where the decoder overlays \<^verbatim>\<open>struct sni_ext\<close> for
  the first two, hold \<open>04 00 00 03 00\<close> followed by \<open>abc\<close> and by \<open>xyz\<close>.
\<close>

definition hello_two_sni :: "u8 list" where
  "hello_two_sni =
     test_header 89 85 @ test_fields @ [42, 0]
       @ [0, 0, 6, 0, 0, 0, 0, 0, 0, 0]
       @ [0, 0, 6, 0, 0, 0, 0, 0, 0, 0]
       @ [1, 0, 18, 0]
       @ [4, 0, 0, 3, 0, 0x61, 0x62, 0x63, 0, 0, 4, 0, 0, 3, 0, 0x78, 0x79, 0x7a]"

text \<open>
  84 bytes: extensions length declared 0 at offsets 50 and 51, followed by 32 bytes:
  an extension of type 0 and payload length 6 at offset 52, one of type 1 and payload
  length 18 at offset 62; offset 76 holds \<open>04 00 00 03 00\<close> and \<open>abc\<close>.
\<close>

definition hello_trailing_sni :: "u8 list" where
  "hello_trailing_sni =
     test_header 79 75 @ test_fields @ [0, 0]
       @ [0, 0, 6, 0, 0, 0, 0, 0, 0, 0]
       @ [1, 0, 18, 0]
       @ [0, 0, 0, 0, 0, 0, 0, 0, 0, 0, 4, 0, 0, 3, 0, 0x61, 0x62, 0x63]"


text \<open>
  The array of \<^verbatim>\<open>greet_cb\<close> after a read: the received bytes, behind them the bytes
  \<open>stale\<close> an earlier read had stored at those offsets, zeros up to 8192.
\<close>

definition stack_array :: "u8 list \<Rightarrow> u8 list \<Rightarrow> u8 list" where
  "stack_array received stale =
     received @ stale @ replicate (8192 - length received - length stale) 0"

text \<open>
  A read of 44 bytes: the header and a session-id length of 1. Behind them the array
  still holds \<open>02 00\<close> at offsets 45 and 46 and \<open>80\<close> at offset 49.
\<close>

definition hello_sid_one :: "u8 list" where
  "hello_sid_one = test_header 39 35 @ [1]"

definition stale_array :: "u8 list" where
  "stale_array = stack_array hello_sid_one [0, 2, 0, 0, 0, 0x80]"

text \<open>
  A read that fills the array: 8192 bytes with record length 8187 and handshake length
  8183 (low byte first), an empty session id and a cipher-suites length of 8151 at
  offsets 44 and 45.
\<close>

definition hello_full_array :: "u8 list" where
  "hello_full_array =
     [0x16, 0x03, 0x01, 0xfb, 0x1f, 0x01, 0xf7, 0x1f, 0x00, 0x03, 0x03,
      0, 0, 0, 0, 0, 0, 0, 0, 0, 0, 0, 0, 0, 0, 0, 0,
      0, 0, 0, 0, 0, 0, 0, 0, 0, 0, 0, 0, 0, 0, 0, 0]
       @ [0, 0xd7, 0x1f] @ replicate 8146 0"

text \<open>The first 50 bytes of \<open>stale_array\<close> and the first 46 of \<open>hello_full_array\<close>.\<close>

definition stale_prefix :: "u8 list" where
  "stale_prefix = hello_sid_one @ [0, 2, 0, 0, 0, 0x80]"

definition full_prefix :: "u8 list" where
  "full_prefix = take 46 hello_full_array"

section \<open>The decoder on malformed and well-formed hellos\<close>

text \<open>
  C1: every buffer in which a length field claims more bytes than remain is rejected,
  and no step of the decode reads past the end of the buffer. The code does neither.
  The check \<^verbatim>\<open>tlen >= remain + 4\<close> lets a session-id length of 3 pass when a single
  byte remains; the cursor moves to offset 47 of a 44-byte buffer and the next field
  is read there. The extensions length is compared with \<open>remain\<close> before its own two
  bytes are taken off, so a block declared 2 bytes long with nothing behind it is
  accepted and the decode ends in the success branch.
\<close>

theorem length_checks_let_reads_pass_the_end:
  "int (length hello_sid_overrun) = 44 \<and>
   parse_ssl_greeting char_signed (new_session 7, []) hello_sid_overrun 44 =
     Inl (Out_of_bounds 47) \<and>
   int (length hello_ext_len_overrun) = 52 \<and>
   int_2byte_le hello_ext_len_overrun 50 = Inr 2 \<and>
   parse_ssl_greeting char_signed (new_session 7, []) hello_ext_len_overrun 52 =
     Inr (\<lparr>fd = 7,
           io = \<lparr>io_cb = Alert_cb, io_fd = 7, io_events = EV_WRITE, io_active = True\<rparr>,
           hostname = None,
           state = ssl_state_alert\<rparr>,
          [Ev_io_stop 7, Printf_got_hostname None, Ev_io_start Alert_cb 7 EV_WRITE])"
  by (cases char_signed; simp only: ; code_simp)

text \<open>
  C2: a hello with a valid server_name extension (list length, name type and host-name
  length at payload offsets 0, 2 and 3, host name behind them) decodes to exactly that
  host name; \<open>example.com\<close> is the example. The code overlays the structure 24 bytes
  behind the extension header instead of 4. On the 72-byte hello it reads offset 76;
  with the block padded so that the overlay lies inside the buffer, the sub-field test
  fails on the padding, the decode takes the error exit and the hostname stays unset.
\<close>

theorem sni_overlay_misses_the_payload:
  "int (length hello_example_com) = 72 \<and>
   rd_range hello_example_com 61 11 = Inr example_com \<and>
   parse_ssl_greeting char_signed (new_session 7, []) hello_example_com 72 =
     Inl (Out_of_bounds 76) \<and>
   int (length hello_example_com_padded) = 82 \<and>
   rd_range hello_example_com_padded 61 11 = Inr example_com \<and>
   parse_ssl_greeting char_signed (new_session 7, []) hello_example_com_padded 82 =
     Inr (\<lparr>fd = 7,
           io = \<lparr>io_cb = Alert_cb, io_fd = 7, io_events = EV_WRITE, io_active = True\<rparr>,
           hostname = None,
           state = ssl_state_alert\<rparr>,
          [Ev_io_stop 7, Ev_io_start Alert_cb 7 EV_WRITE])"
  by (cases char_signed; simp only: ; code_simp)

text \<open>
  C9: the hostname of a session is assigned at most once, also for a buffer with more
  than one server_name extension. The code allocates and assigns once per accepted
  extension of type 0: on \<open>hello_two_sni\<close> it allocates twice, the second buffer
  replaces the first, and the first is never freed.
\<close>

theorem hostname_assigned_per_extension:
  "int (length hello_two_sni) = 94 \<and>
   parse_ssl_greeting char_signed (new_session 7, []) hello_two_sni 94 =
     Inr (\<lparr>fd = 7,
           io = \<lparr>io_cb = Alert_cb, io_fd = 7, io_events = EV_WRITE, io_active = True\<rparr>,
           hostname = Some [0x78, 0x79, 0x7a, 0],
           state = ssl_state_alert\<rparr>,
          [Ev_io_stop 7, Xmalloc 4, Xmalloc 4, Printf_got_hostname (Some [0x78, 0x79, 0x7a, 0]),
           Ev_io_start Alert_cb 7 EV_WRITE])"
  by (cases char_signed; simp only: ; code_simp)

section \<open>The alert record\<close>

text \<open>
  C3: the alert written is a fixed 7-byte record: content type 0x15, a version field
  that is set, a length field equal to 2, level 2, description 0x40. The code assigns
  \<^verbatim>\<open>version[0]\<close> twice and \<^verbatim>\<open>version[1]\<close> never, and of the length only \<^verbatim>\<open>len[1]\<close>:
  the third and fourth byte written are whatever the stack held.
\<close>

theorem alert_record_has_unset_bytes:
  "alert_bytes alert_record = [Some 0x15, Some 0x01, None, None, Some 2, Some 2, Some 0x40] \<and>
   alert_cb (send_alert (new_session 7, [])) =
     (Some \<lparr>fd = 7,
            io = \<lparr>io_cb = Alert_cb, io_fd = 7, io_events = EV_WRITE, io_active = True\<rparr>,
            hostname = None,
            state = ssl_state_alert_sent\<rparr>,
      [Ev_io_start Alert_cb 7 EV_WRITE,
       Write 7 [Some 0x15, Some 0x01, None, None, Some 2, Some 2, Some 0x40]])"
  by code_simp

section \<open>Termination on a failed read\<close>

lemma run_closed: "run char_signed evs (None, tr) = Inr (None, tr)"
  by (induction evs) (simp_all add: fbind_def)

text \<open>
  C5: when the read of the read-readiness callback returns 0 or a negative value, the
  session goes straight to its end without an alert: the watcher is stopped, the
  socket closed once, the hostname pointer freed once (a null pointer when no hostname
  was set), the session freed, and whatever is reported ready afterwards has no effect.
\<close>

theorem failed_read_terminates_session:
  assumes "r \<le> 0"
    and "io ssl = \<lparr>io_cb = Greet_cb, io_fd = fd ssl, io_events = EV_READ, io_active = True\<rparr>"
  shows "run char_signed (Ready EV_READ r data # evs) (Some ssl, tr) =
           Inr (None, tr @ [Ev_io_stop (fd ssl), Close (fd ssl), Free_hostname (hostname ssl),
                            Free_session])"
  using assms by (simp add: fbind_def greet_cb_def terminate_session_def run_closed)

theorem failed_read_terminates_session_witness:
  "run True [Ready EV_READ 0 [], Ready EV_WRITE 0 []] (Some (new_session 7), []) =
     Inr (None, [Ev_io_stop 7, Close 7, Free_hostname None, Free_session]) \<and>
   run False [Ready EV_READ (- 1) []]
       (Some ((new_session 9)\<lparr>hostname := Some [0x61, 0]\<rparr>), [Xmalloc 2]) =
     Inr (None, [Xmalloc 2, Ev_io_stop 9, Close 9, Free_hostname (Some [0x61, 0]), Free_session])"
  using failed_read_terminates_session [of 0 "new_session 7" True "[]" "[Ready EV_WRITE 0 []]" "[]"]
    failed_read_terminates_session [of "- 1" "(new_session 9)\<lparr>hostname := Some [0x61, 0]\<rparr>"
      False "[]" "[]" "[Xmalloc 2]"]
  by (simp add: new_session_def)

section \<open>Listener set-up and accept\<close>

text \<open>
  C6: when \<^verbatim>\<open>start_listen\<close> fails for some resolved address it reports failure, and
  every socket opened for an earlier address in the same call has been closed by then.
  The code returns \<open>False\<close> at once: with two addresses, the first set up on
  descriptor 3 and \<^verbatim>\<open>bind\<close> failing for the second, descriptor 3 stays open with its
  watcher started.
\<close>

theorem start_listen_leaves_earlier_socket_open:
  "start_listen 0
     [\<lparr>socket_ret = 3, l_setfd_ret = 0, l_setfl_ret = 0, bind_ret = 0, listen_ret = 0\<rparr>,
      \<lparr>socket_ret = 4, l_setfd_ret = 0, l_setfl_ret = 0, bind_ret = - 1, listen_ret = 0\<rparr>] [] =
     (False,
      [Socket 3, Fcntl_setfd_cloexec 3, Setsockopt_reuseaddr 3, Fcntl_getfl 3,
       Fcntl_setfl_nonblock 3, Bind 3, Listen 3, Xmalloc0_watcher,
       Ev_io_start Accept_cb 3 EV_READ,
       Socket 4, Fcntl_setfd_cloexec 4, Setsockopt_reuseaddr 4, Fcntl_getfl 4,
       Fcntl_setfl_nonblock 4, Bind 4, Close 4, Fprintf_stderr ''socket listen'']) \<and>
   open_fds (snd (start_listen 0
     [\<lparr>socket_ret = 3, l_setfd_ret = 0, l_setfl_ret = 0, bind_ret = 0, listen_ret = 0\<rparr>,
      \<lparr>socket_ret = 4, l_setfd_ret = 0, l_setfl_ret = 0, bind_ret = - 1, listen_ret = 0\<rparr>] [])) [] = [3]"
  by code_simp

text \<open>
  C7: when \<^verbatim>\<open>accept\<close> reports that no connection is ready, the accept callback does
  nothing and logs nothing; only a real failure is logged. \<^verbatim>\<open>accept_from_socket\<close>
  returns 0 for that case and \<open>- 1\<close> for a failure, but \<^verbatim>\<open>accept_cb\<close> tests
  only \<^verbatim>\<open>> 0\<close> and prints the failure message for both.
\<close>

theorem accept_would_block_is_logged:
  "accept_from_socket
     \<lparr>accept_ret = - 1, accept_errno = EAGAIN, a_setfl_ret = 0, a_setfd_ret = 0\<rparr> 3 [] =
     (0, [Accept 3 (- 1)]) \<and>
   accept_cb \<lparr>accept_ret = - 1, accept_errno = EAGAIN, a_setfl_ret = 0, a_setfd_ret = 0\<rparr> 3 [] =
     (None, [Accept 3 (- 1), Fprintf_stderr ''accept failed''])"
  by code_simp

text \<open>
  C8: after a successful accept the new descriptor, not the listening one, is marked
  close-on-exec and set non-blocking before its session is registered. The code
  passes the listening descriptor to both \<^verbatim>\<open>fcntl\<close> calls for the file status flags:
  accepting descriptor 7 on listening descriptor 3 sets \<^verbatim>\<open>O_NONBLOCK\<close> on 3, and 7 is
  registered without it.
\<close>

theorem accept_sets_nonblock_on_listening_socket:
  "accept_cb \<lparr>accept_ret = 7, accept_errno = Other_errno 0, a_setfl_ret = 0, a_setfd_ret = 0\<rparr> 3 [] =
     (Some (new_session 7),
      [Accept 3 7, Fcntl_getfl 3, Fcntl_setfl_nonblock 3, Fcntl_setfd_cloexec 7,
       Xmalloc0_session, Ev_io_start Greet_cb 7 EV_READ])"
  by code_simp

section \<open>One alert per session\<close>

lemma quiet_refl: "quiet w w"
  by (simp add: quiet_def)

lemma quiet_trans: "quiet a b \<Longrightarrow> quiet b c \<Longrightarrow> quiet a c"
  by (simp add: quiet_def)

lemma quiet_hostname:
  "quiet w ((fst w)\<lparr>hostname := h\<rparr>, snd w @ [Xmalloc n])"
  by (simp add: quiet_def n_writes_def n_closes_def)

lemma fbind_Inr: "fbind m f = Inr y \<longleftrightarrow> (\<exists>x. m = Inr x \<and> f x = Inr y)"
  by (cases m) (simp_all add: fbind_def)

lemma fbind_Inr_eq: "fbind (Inr x) f = f x"
  by (simp add: fbind_def)

lemma parse_extension_quiet:
  "parse_extension buf w pos remain = Inr (ret, w') \<Longrightarrow> quiet w w'"
  unfolding parse_extension_def Let_def
  by (auto simp: fbind_Inr quiet_refl quiet_hostname split: if_splits)

lemma ext_loop_quiet:
  "ext_loop buf w p remain = Inr (ret, w') \<Longrightarrow> quiet w w'"
proof (induction buf w p remain rule: ext_loop.induct)
  case (1 buf w p remain)
  from "1.prems" obtain r1 w1 where pe: "parse_extension buf w p remain = Inr (r1, w1)"
    by (subst (asm) ext_loop.simps) (auto split: sum.splits)
  have q1: "quiet w w1"
    using pe by (rule parse_extension_quiet)
  show ?case
  proof (cases "0 < r1")
    case True
    with pe "1.prems" have "ext_loop buf w1 (p + r1) (remain - r1) = Inr (ret, w')"
      by (subst (asm) ext_loop.simps) simp
    with "1.IH" [OF pe refl True] have "quiet w1 w'"
      by simp
    with q1 show ?thesis
      by (rule quiet_trans)
  next
    case False
    with pe "1.prems" have "w' = w1"
      by (subst (asm) ext_loop.simps) simp
    with q1 show ?thesis
      by simp
  qed
qed

lemma send_alert_shape:
  "send_alert w = (ssl', tr') \<Longrightarrow>
     state ssl' = ssl_state_alert \<and>
     io ssl' = \<lparr>io_cb = Alert_cb, io_fd = fd (fst w), io_events = EV_WRITE, io_active = True\<rparr> \<and>
     fd ssl' = fd (fst w) \<and> n_writes tr' = n_writes (snd w) \<and> n_closes tr' = n_closes (snd w)"
  by (cases w) (auto simp: send_alert_def n_writes_def n_closes_def)

lemma parse_ssl_greeting_shape:
  assumes "parse_ssl_greeting char_signed (ssl, tr) buf len = Inr (ssl', tr')"
  shows "state ssl' = ssl_state_alert \<and>
     io ssl' = \<lparr>io_cb = Alert_cb, io_fd = fd ssl, io_events = EV_WRITE, io_active = True\<rparr> \<and>
     fd ssl' = fd ssl \<and> n_writes tr' = n_writes tr \<and> n_closes tr' = n_closes tr"
proof -
  define w0 where "w0 = ev_io_stop (ssl, tr)"
  have w0: "fd (fst w0) = fd ssl" "n_writes (snd w0) = n_writes tr" "n_closes (snd w0) = n_closes tr"
    by (simp_all add: w0_def ev_io_stop_def n_writes_def n_closes_def)
  from assms consider
      (direct) "send_alert w0 = (ssl', tr')"
    | (loop) p remain ret w1 where "ext_loop buf w0 p remain = Inr (ret, w1)"
        and "greeting_done (ret, w1) = (ssl', tr')"
    unfolding parse_ssl_greeting_def Let_def w0_def [symmetric]
    by (auto simp: fbind_Inr split: if_splits option.splits prod.splits)
  then show ?thesis
  proof cases
    case direct
    from send_alert_shape [OF direct] w0 show ?thesis by simp
  next
    case loop
    from ext_loop_quiet [OF loop(1)] w0
    have w1: "fd (fst w1) = fd ssl" "n_writes (snd w1) = n_writes tr" "n_closes (snd w1) = n_closes tr"
      by (simp_all add: quiet_def)
    from loop(2) have "send_alert w1 = (ssl', tr') \<or>
        send_alert (fst w1, snd w1 @ [Printf_got_hostname (hostname (fst w1))]) = (ssl', tr')"
      by (cases w1) (simp add: greeting_done_def split: if_splits)
    then show ?thesis
    proof
      assume "send_alert w1 = (ssl', tr')"
      from send_alert_shape [OF this] w1 show ?thesis by simp
    next
      assume "send_alert (fst w1, snd w1 @ [Printf_got_hostname (hostname (fst w1))]) = (ssl', tr')"
      from send_alert_shape [OF this] w1 show ?thesis
        by (simp add: n_writes_def n_closes_def)
    qed
  qed
qed

lemma sent_phase:
  assumes "state ssl = ssl_state_alert_sent"
    and "io ssl = \<lparr>io_cb = Alert_cb, io_fd = f, io_events = EV_WRITE, io_active = True\<rparr>"
    and "run char_signed evs (Some ssl, tr) = Inr (s', tr')"
  shows "(s' = Some ssl \<and> tr' = tr) \<or> (s' = None \<and> tr' = tr @ terminate_session ssl)"
  using assms(3)
proof (induction evs)
  case Nil
  then show ?case by simp
next
  case (Cons ev evs)
  obtain k r data where ev: "ev = Ready k r data"
    by (cases ev)
  show ?case
  proof (cases k)
    case EV_READ
    with Cons ev assms(2) show ?thesis
      by (simp add: fbind_def)
  next
    case EV_WRITE
    with Cons.prems ev assms(1,2) show ?thesis
      by (simp add: fbind_def alert_cb_def run_closed)
  qed
qed

lemma alert_phase:
  assumes "state ssl = ssl_state_alert"
    and "io ssl = \<lparr>io_cb = Alert_cb, io_fd = f, io_events = EV_WRITE, io_active = True\<rparr>"
    and "run char_signed evs (Some ssl, tr) = Inr (s', tr')"
  shows "(s' = Some ssl \<and> tr' = tr) \<or>
         (s' \<noteq> None \<and> tr' = tr @ [alert_write (fd ssl)]) \<or>
         (s' = None \<and> tr' = tr @ alert_write (fd ssl) #
            terminate_session (ssl\<lparr>state := ssl_state_alert_sent\<rparr>))"
  using assms(3)
proof (induction evs)
  case Nil
  then show ?case by simp
next
  case (Cons ev evs)
  obtain k r data where ev: "ev = Ready k r data"
    by (cases ev)
  show ?case
  proof (cases k)
    case EV_READ
    with Cons ev assms(2) show ?thesis
      by (simp add: fbind_def)
  next
    case EV_WRITE
    let ?ssl2 = "ssl\<lparr>state := ssl_state_alert_sent\<rparr>"
    from Cons.prems ev EV_WRITE assms(1,2)
    have "run char_signed evs (Some ?ssl2, tr @ [alert_write (fd ssl)]) = Inr (s', tr')"
      by (simp add: fbind_def alert_cb_def alert_write_def)
    from sent_phase [OF _ _ this, of f] assms(2) show ?thesis
      by auto
  qed
qed

lemma n_writes_append: "n_writes (xs @ ys) = n_writes xs + n_writes ys"
  by (simp add: n_writes_def)

lemma n_closes_append: "n_closes (xs @ ys) = n_closes xs + n_closes ys"
  by (simp add: n_closes_def)

lemma terminate_session_counts:
  "n_writes (terminate_session ssl) = 0" "n_closes (terminate_session ssl) = 1"
  "before_close (terminate_session ssl) = [Ev_io_stop (io_fd (io ssl))]"
  by (simp_all add: terminate_session_def n_writes_def n_closes_def before_close_def)

lemma before_close_append:
  "n_closes tr = 0 \<Longrightarrow> before_close (tr @ xs) = tr @ before_close xs"
  by (simp add: n_closes_def before_close_def filter_empty_conv takeWhile_append2)


lemma read_failed_simps:
  "read_failed (Ready EV_WRITE r data # evs) = read_failed evs"
  "read_failed (Ready EV_READ r data # evs) = (r \<le> 0)"
  by (simp_all add: read_failed_def)

lemma init_phase:
  assumes "io ssl = \<lparr>io_cb = Greet_cb, io_fd = f, io_events = EV_READ, io_active = True\<rparr>"
    and "run char_signed evs (Some ssl, tr) = Inr (s', tr')"
  shows "(s' = Some ssl \<and> tr' = tr) \<or>
         (read_failed evs \<and> s' = None \<and> tr' = tr @ terminate_session ssl) \<or>
         (\<not> read_failed evs \<and>
          (\<exists>ssl1 tr1. n_writes tr1 = n_writes tr \<and> n_closes tr1 = n_closes tr \<and> fd ssl1 = fd ssl \<and>
             ((s' = Some ssl1 \<and> tr' = tr1) \<or>
              (s' \<noteq> None \<and> tr' = tr1 @ [alert_write (fd ssl)]) \<or>
              (s' = None \<and> tr' = tr1 @ alert_write (fd ssl) #
                 terminate_session (ssl1\<lparr>state := ssl_state_alert_sent\<rparr>)))))"
  using assms(2)
proof (induction evs)
  case Nil
  then show ?case by simp
next
  case (Cons ev evs)
  obtain k r data where ev: "ev = Ready k r data"
    by (cases ev)
  show ?case
  proof (cases k)
    case EV_WRITE
    with Cons ev assms(1) show ?thesis
      by (simp add: fbind_def read_failed_simps)
  next
    case EV_READ
    show ?thesis
    proof (cases "r \<le> 0")
      case True
      with Cons.prems ev EV_READ assms(1) show ?thesis
        by (simp add: fbind_def greet_cb_def run_closed read_failed_simps)
    next
      case False
      with Cons.prems ev EV_READ assms(1)
      obtain ssl1 tr1 where
        p: "parse_ssl_greeting char_signed (ssl, tr) data r = Inr (ssl1, tr1)"
        and r: "run char_signed evs (Some ssl1, tr1) = Inr (s', tr')"
        by (auto simp: fbind_Inr greet_cb_def)
      from parse_ssl_greeting_shape [OF p]
      have sh: "state ssl1 = ssl_state_alert"
        "io ssl1 = \<lparr>io_cb = Alert_cb, io_fd = fd ssl, io_events = EV_WRITE, io_active = True\<rparr>"
        "fd ssl1 = fd ssl" "n_writes tr1 = n_writes tr" "n_closes tr1 = n_closes tr"
        by simp_all
      from alert_phase [OF sh(1,2) r] sh(3,4,5) False ev EV_READ show ?thesis
        by (auto simp: read_failed_simps)
    qed
  qed
qed

text \<open>
  What holds for every run in which no decode leaves the array: at most one write,
  each write is the alert record on the session's descriptor, and once the session is
  gone there is one close, all writes precede it, and their number is 0 after a failed
  first read and 1 otherwise.
\<close>

lemma one_alert_before_close:
  assumes "run char_signed evs (Some (new_session nfd), []) = Inr (s, tr)"
  shows "n_writes tr \<le> 1 \<and>
         (\<forall>e \<in> set tr. is_write e \<longrightarrow> e = Write nfd (alert_bytes alert_record)) \<and>
         (s = None \<longrightarrow>
            n_closes tr = 1 \<and>
            n_writes (before_close tr) = (if read_failed evs then 0 else 1) \<and>
            n_writes tr = n_writes (before_close tr))"
proof -
  have io: "io (new_session nfd) =
      \<lparr>io_cb = Greet_cb, io_fd = nfd, io_events = EV_READ, io_active = True\<rparr>"
    and fd: "fd (new_session nfd) = nfd"
    by (simp_all add: new_session_def)
  have nw: "\<And>xs. n_writes xs = 0 \<Longrightarrow> \<forall>e \<in> set xs. \<not> is_write e"
    by (simp add: n_writes_def filter_empty_conv)
  have tw: "\<And>x. \<forall>e \<in> set (terminate_session x). \<not> is_write e"
    by (simp add: terminate_session_def)
  from init_phase [OF io assms] consider
      (idle) "s = Some (new_session nfd)" "tr = []"
    | (failed) "read_failed evs" "s = None" "tr = terminate_session (new_session nfd)"
    | (parsed) ssl1 tr1 where "\<not> read_failed evs" "n_writes tr1 = 0" "n_closes tr1 = 0"
        "s = Some ssl1" "tr = tr1"
    | (sent) tr1 where "\<not> read_failed evs" "n_writes tr1 = 0" "n_closes tr1 = 0"
        "s \<noteq> None" "tr = tr1 @ [alert_write nfd]"
    | (closed) ssl1 tr1 where "\<not> read_failed evs" "n_writes tr1 = 0" "n_closes tr1 = 0"
        "s = None"
        "tr = tr1 @ alert_write nfd # terminate_session (ssl1\<lparr>state := ssl_state_alert_sent\<rparr>)"
    by (auto simp: fd n_writes_def n_closes_def)
  then show ?thesis
  proof cases
    case idle
    then show ?thesis by (simp add: n_writes_def)
  next
    case failed
    then show ?thesis
      using tw by (simp add: terminate_session_counts n_writes_def)
  next
    case parsed
    then show ?thesis using nw [of tr1] by simp
  next
    case sent
    then show ?thesis
      using nw [of tr1] by (auto simp: n_writes_append alert_write_def n_writes_def)
  next
    case closed
    let ?t = "terminate_session (ssl1\<lparr>state := ssl_state_alert_sent\<rparr>)"
    have bc: "before_close tr = tr1 @ [alert_write nfd, Ev_io_stop (io_fd (io ssl1))]"
      using closed(3,5)
      by (simp add: before_close_append)
         (simp add: before_close_def alert_write_def terminate_session_def)
    have w1: "n_writes [alert_write nfd] = 1" "n_closes [alert_write nfd] = 0"
      "n_writes [alert_write nfd, Ev_io_stop (io_fd (io ssl1))] = 1"
      by (simp_all add: n_writes_def n_closes_def alert_write_def)
    have tr: "tr = tr1 @ [alert_write nfd] @ ?t"
      using closed(5) by simp
    have c: "n_closes tr = 1" and w: "n_writes tr = 1"
      unfolding tr n_closes_append n_writes_append
      using closed(2,3) w1 by (simp_all add: terminate_session_counts)
    have wb: "n_writes (before_close tr) = 1"
      unfolding bc n_writes_append using closed(2) w1 by simp
    have "\<forall>e \<in> set tr. is_write e \<longrightarrow> e = Write nfd (alert_bytes alert_record)"
      unfolding tr using nw [OF closed(2)] tw [of "ssl1\<lparr>state := ssl_state_alert_sent\<rparr>"]
      by (auto simp: alert_write_def)
    with c w wb closed(1) show ?thesis
      by simp
  qed
qed

lemma one_alert_before_close_runs:
  "run True [Ready EV_READ 3 [1, 2, 3], Ready EV_WRITE 0 [], Ready EV_WRITE 0 []]
       (Some (new_session 7), []) =
     Inr (None, [Ev_io_stop 7, Ev_io_start Alert_cb 7 EV_WRITE,
                 Write 7 (alert_bytes alert_record),
                 Ev_io_stop 7, Close 7, Free_hostname None, Free_session]) \<and>
   n_writes [Ev_io_stop 7, Ev_io_start Alert_cb 7 EV_WRITE,
             Write 7 (alert_bytes alert_record),
             Ev_io_stop 7, Close 7, Free_hostname None, Free_session] = 1 \<and>
   n_writes (before_close [Ev_io_stop 7, Ev_io_start Alert_cb 7 EV_WRITE,
             Write 7 (alert_bytes alert_record),
             Ev_io_stop 7, Close 7, Free_hostname None, Free_session]) = 1 \<and>
   run True [Ready EV_WRITE 0 [], Ready EV_READ 84 hello_trailing_sni, Ready EV_READ 0 [],
             Ready EV_WRITE 0 [], Ready EV_WRITE 0 [], Ready EV_WRITE 0 []]
       (Some (new_session 7), []) =
     Inr (None, [Ev_io_stop 7, Xmalloc 4, Printf_got_hostname (Some [0x61, 0x62, 0x63, 0]),
                 Ev_io_start Alert_cb 7 EV_WRITE, Write 7 (alert_bytes alert_record),
                 Ev_io_stop 7, Close 7, Free_hostname (Some [0x61, 0x62, 0x63, 0]),
                 Free_session]) \<and>
   n_writes [Ev_io_stop 7, Xmalloc 4, Printf_got_hostname (Some [0x61, 0x62, 0x63, 0]),
             Ev_io_start Alert_cb 7 EV_WRITE, Write 7 (alert_bytes alert_record),
             Ev_io_stop 7, Close 7, Free_hostname (Some [0x61, 0x62, 0x63, 0]),
             Free_session] = 1"
proof -
  let ?evs = "[Ready EV_READ 3 [1, 2, 3], Ready EV_WRITE 0 [], Ready EV_WRITE 0 []]"
  let ?tr = "[Ev_io_stop 7, Ev_io_start Alert_cb 7 EV_WRITE, Write 7 (alert_bytes alert_record),
              Ev_io_stop 7, Close 7, Free_hostname None, Free_session]"
  let ?evs2 = "[Ready EV_WRITE 0 [], Ready EV_READ 84 hello_trailing_sni, Ready EV_READ 0 [],
                Ready EV_WRITE 0 [], Ready EV_WRITE 0 [], Ready EV_WRITE 0 []]"
  let ?tr2 = "[Ev_io_stop 7, Xmalloc 4, Printf_got_hostname (Some [0x61, 0x62, 0x63, 0]),
               Ev_io_start Alert_cb 7 EV_WRITE, Write 7 (alert_bytes alert_record),
               Ev_io_stop 7, Close 7, Free_hostname (Some [0x61, 0x62, 0x63, 0]), Free_session]"
  have r: "run True ?evs (Some (new_session 7), []) = Inr (None, ?tr)"
    by code_simp
  have nf: "\<not> read_failed ?evs"
    by (simp add: read_failed_def)
  have r2: "run True ?evs2 (Some (new_session 7), []) = Inr (None, ?tr2)"
    by code_simp
  have nf2: "\<not> read_failed ?evs2"
    by (simp add: read_failed_def)
  from one_alert_before_close [OF r] one_alert_before_close [OF r2] nf nf2 r r2 show ?thesis
    by simp
qed

subsection \<open>Runs that leave the array\<close>

lemma rd_app: "rd buf i = Inr b \<Longrightarrow> rd (buf @ zs) i = Inr b"
  by (auto simp: rd_def nth_append split: if_splits)

lemma rd_range_app: "rd_range buf p n = Inr bs \<Longrightarrow> rd_range (buf @ zs) p n = Inr bs"
  by (auto simp: rd_range_def split: if_splits)

lemma int_2byte_le_app: "int_2byte_le buf p = Inr t \<Longrightarrow> int_2byte_le (buf @ zs) p = Inr t"
  by (auto simp: int_2byte_le_def fbind_Inr rd_app)

lemma int_3byte_le_app:
  assumes "int_3byte_le buf p = Inr t"
  shows "int_3byte_le (buf @ zs) p = Inr t"
proof -
  from assms obtain b0 b1 b2 where
    "rd buf p = Inr b0" "rd buf (p + 1) = Inr b1" "rd buf (p + 2) = Inr b2"
    and t: "t = uint b0 OR push_bit 8 (uint b1) OR push_bit 16 (uint b2)"
    unfolding int_3byte_le_def fbind_Inr by blast
  then have "rd (buf @ zs) p = Inr b0" "rd (buf @ zs) (p + 1) = Inr b1"
    "rd (buf @ zs) (p + 2) = Inr b2"
    by (simp_all add: rd_app)
  with t show ?thesis
    unfolding int_3byte_le_def by (simp only: fbind_Inr_eq)
qed

lemma rd_outside: "int (length buf) \<le> i \<Longrightarrow> rd buf i = Inl (Out_of_bounds i)"
  by (simp add: rd_def)

lemma stale_array_eq: "stale_array = stale_prefix @ replicate 8142 0"
proof -
  have "length hello_sid_one = 44"
    by code_simp
  then show ?thesis
    by (simp add: stale_array_def stack_array_def stale_prefix_def)
qed


lemma stale_facts:
  "length stale_array = 8192"
  "take 44 stale_array = hello_sid_one"
  "rd_range stale_array 0 3 = Inr tls_magic"
  "rd stale_array 5 = Inr 1"
  "int_2byte_le stale_array 3 = Inr 39"
  "int_3byte_le stale_array 6 = Inr 35"
  "rd stale_array 43 = Inr 1"
  "int_2byte_le stale_array 45 = Inr 2"
  "rd stale_array 49 = Inr 0x80"
proof -
  have l: "length stale_prefix = 50"
    by code_simp
  show "length stale_array = 8192"
    by (simp add: stale_array_eq l)
  have "length hello_sid_one = 44"
    by code_simp
  then show "take 44 stale_array = hello_sid_one"
    by (simp add: stale_array_def stack_array_def)
  have "rd_range stale_prefix 0 3 = Inr tls_magic"
    by code_simp
  then show "rd_range stale_array 0 3 = Inr tls_magic"
    unfolding stale_array_eq by (rule rd_range_app)
  have "rd stale_prefix 5 = Inr 1"
    by code_simp
  then show "rd stale_array 5 = Inr 1"
    unfolding stale_array_eq by (rule rd_app)
  have "int_2byte_le stale_prefix 3 = Inr 39"
    by code_simp
  then show "int_2byte_le stale_array 3 = Inr 39"
    unfolding stale_array_eq by (rule int_2byte_le_app)
  have "int_3byte_le stale_prefix 6 = Inr 35"
    by code_simp
  then show "int_3byte_le stale_array 6 = Inr 35"
    unfolding stale_array_eq by (rule int_3byte_le_app)
  have "rd stale_prefix 43 = Inr 1"
    by code_simp
  then show "rd stale_array 43 = Inr 1"
    unfolding stale_array_eq by (rule rd_app)
  have "int_2byte_le stale_prefix 45 = Inr 2"
    by code_simp
  then show "int_2byte_le stale_array 45 = Inr 2"
    unfolding stale_array_eq by (rule int_2byte_le_app)
  have "rd stale_prefix 49 = Inr 0x80"
    by code_simp
  then show "rd stale_array 49 = Inr 0x80"
    unfolding stale_array_eq by (rule rd_app)
qed

lemma stale_header: "not_ssl_packet stale_array 44 = Inr False"
  unfolding not_ssl_packet_def
  by (simp add: stale_facts fbind_Inr_eq tls_greeting_def u32_def)

lemma stale_fields: "greeting_fields True stale_array 44 = Inr (Some (4294967218, 122))"
  unfolding greeting_fields_def Let_def sizeof_ssl_header_def
  by (simp add: stale_facts fbind_Inr_eq char_to_uint_def u32_def s32_def)

lemma stale_parse:
  "parse_ssl_greeting True w stale_array 44 = Inl (Out_of_bounds 4294967218)"
proof -
  have "int_2byte_le stale_array 4294967218 = Inl (Out_of_bounds 4294967218)"
    by (simp add: int_2byte_le_def fbind_def rd_outside stale_facts)
  then show ?thesis
    unfolding parse_ssl_greeting_def Let_def
    by (simp add: stale_header stale_fields fbind_def u64_def sizeof_ssl_header_def)
qed


lemma hello_full_array_eq: "hello_full_array = full_prefix @ replicate 8146 0"
  by (simp add: hello_full_array_def full_prefix_def)

lemma full_facts:
  "length hello_full_array = 8192"
  "rd_range hello_full_array 0 3 = Inr tls_magic"
  "rd hello_full_array 5 = Inr 1"
  "int_2byte_le hello_full_array 3 = Inr 8187"
  "int_3byte_le hello_full_array 6 = Inr 8183"
  "rd hello_full_array 43 = Inr 0"
  "int_2byte_le hello_full_array 44 = Inr 8151"
proof -
  have p: "full_prefix =
     [0x16, 0x03, 0x01, 0xfb, 0x1f, 0x01, 0xf7, 0x1f, 0x00, 0x03, 0x03,
      0, 0, 0, 0, 0, 0, 0, 0, 0, 0, 0, 0, 0, 0, 0, 0,
      0, 0, 0, 0, 0, 0, 0, 0, 0, 0, 0, 0, 0, 0, 0, 0, 0, 0xd7, 0x1f]"
    by (simp add: hello_full_array_def full_prefix_def)
  show "length hello_full_array = 8192"
    by (simp add: hello_full_array_eq p)
  have "rd_range full_prefix 0 3 = Inr tls_magic"
    unfolding p by code_simp
  then show "rd_range hello_full_array 0 3 = Inr tls_magic"
    unfolding hello_full_array_eq by (rule rd_range_app)
  have "rd full_prefix 5 = Inr 1"
    unfolding p by code_simp
  then show "rd hello_full_array 5 = Inr 1"
    unfolding hello_full_array_eq by (rule rd_app)
  have "int_2byte_le full_prefix 3 = Inr 8187"
    unfolding p by code_simp
  then show "int_2byte_le hello_full_array 3 = Inr 8187"
    unfolding hello_full_array_eq by (rule int_2byte_le_app)
  have "int_3byte_le full_prefix 6 = Inr 8183"
    unfolding p by code_simp
  then show "int_3byte_le hello_full_array 6 = Inr 8183"
    unfolding hello_full_array_eq by (rule int_3byte_le_app)
  have "rd full_prefix 43 = Inr 0"
    unfolding p by code_simp
  then show "rd hello_full_array 43 = Inr 0"
    unfolding hello_full_array_eq by (rule rd_app)
  have "int_2byte_le full_prefix 44 = Inr 8151"
    unfolding p by code_simp
  then show "int_2byte_le hello_full_array 44 = Inr 8151"
    unfolding hello_full_array_eq by (rule int_2byte_le_app)
qed

lemma full_header: "not_ssl_packet hello_full_array 8192 = Inr False"
  unfolding not_ssl_packet_def
  by (simp add: full_facts fbind_Inr_eq tls_greeting_def u32_def)

lemma full_fields: "greeting_fields char_signed hello_full_array 8192 = Inl (Out_of_bounds 8197)"
proof -
  have "rd hello_full_array 8197 = Inl (Out_of_bounds 8197)"
    by (simp add: rd_outside full_facts)
  then show ?thesis
    unfolding greeting_fields_def Let_def sizeof_ssl_header_def
    by (simp add: full_facts fbind_def char_to_uint_def u32_def s32_def)
qed

lemma full_parse:
  "parse_ssl_greeting char_signed w hello_full_array 8192 = Inl (Out_of_bounds 8197)"
  unfolding parse_ssl_greeting_def Let_def
  by (simp add: full_header full_fields fbind_def u64_def sizeof_ssl_header_def)

text \<open>
  C4: along every sequence of readiness events delivered to a session, the alert
  record is written exactly once before the session is closed, whether the decode
  succeeded or failed, and never twice; only a session ended by a read that returned
  0 or less is closed without a write. The length checks of the decoder (C1) break
  this. After a read of 44 bytes into an array that still holds \<open>02 00\<close> at offsets 45
  and 46 and \<open>80\<close> at offset 49, with plain \<^verbatim>\<open>char\<close> signed, the session-id length 1
  moves the cursor to 45 with \<open>remain = - 1\<close>, the stale cipher-suites length 2 moves it
  to 49 with \<open>remain = - 5\<close>, the stale byte \<open>80\<close> becomes \<open>4294967168\<close> and passes
  \<^verbatim>\<open>tlen >= remain + 4\<close>, and the extensions length is read 4294967218 bytes behind
  the start of the 8192-byte array. A read of 8192 bytes with a cipher-suites length
  of 8151 reads the compression length at offset 8197, on every platform. In both
  runs the decoder dereferences an address outside the array before \<^verbatim>\<open>send_alert\<close> is
  reached. What the callback does from there on is undefined; the run ends with the
  fault, no alert written and the session not closed.
\<close>

theorem decode_leaves_the_array:
  "length stale_array = 8192 \<and>
   take 44 stale_array = hello_sid_one \<and>
   greeting_fields True stale_array 44 = Inr (Some (4294967218, 122)) \<and>
   run True (Ready EV_READ 44 stale_array # evs) (Some (new_session 7), []) =
     Inl (Out_of_bounds 4294967218) \<and>
   length hello_full_array = 8192 \<and>
   run char_signed (Ready EV_READ 8192 hello_full_array # evs) (Some (new_session 7), []) =
     Inl (Out_of_bounds 8197)"
  by (simp add: stale_facts stale_fields stale_parse full_facts full_parse new_session_def
      greet_cb_def fbind_def)

section \<open>The declared extensions length\<close>






















end
